theory Spec2Isabelle
  imports Main "HOL-Library.Word"
begin

unbundle bit_operations_syntax

section \<open>Bytes and base64 (the library functions the PKCE helpers call)\<close>

type_synonym byte = "8 word"

text \<open>
  Python strings are modelled as \<^typ>\<open>string\<close>: a character is one code point below 256.
  \<open>bytes.decode("ascii")\<close> on base64 output is the identity on such strings.
\<close>

definition b64_alphabet :: string where
  "b64_alphabet = ''ABCDEFGHIJKLMNOPQRSTUVWXYZabcdefghijklmnopqrstuvwxyz0123456789-_''"

definition b64_char :: "nat \<Rightarrow> char" where
  "b64_char i = b64_alphabet ! i"

text \<open>
  \<open>base64.urlsafe_b64encode\<close>: three bytes give four characters of the URL-safe alphabet;
  a last group of one or two bytes is completed with \<open>=\<close> to four characters.
\<close>

fun urlsafe_b64encode :: "byte list \<Rightarrow> string" where
  "urlsafe_b64encode (a # b # c # rest) =
     [b64_char (unat a div 4),
      b64_char ((unat a mod 4) * 16 + unat b div 16),
      b64_char ((unat b mod 16) * 4 + unat c div 64),
      b64_char (unat c mod 64)] @ urlsafe_b64encode rest"
| "urlsafe_b64encode [a, b] =
     [b64_char (unat a div 4),
      b64_char ((unat a mod 4) * 16 + unat b div 16),
      b64_char ((unat b mod 16) * 4),
      CHR ''='']"
| "urlsafe_b64encode [a] =
     [b64_char (unat a div 4),
      b64_char ((unat a mod 4) * 16),
      CHR ''='', CHR ''='']"
| "urlsafe_b64encode [] = []"

text \<open>\<open>s.rstrip(chars)\<close>: drop every trailing character that occurs in \<open>chars\<close>.\<close>

definition rstrip_chars :: "string \<Rightarrow> string \<Rightarrow> string" where
  "rstrip_chars chars s = rev (dropWhile (\<lambda>c. c \<in> set chars) (rev s))"

text \<open>
  The specification's wording, "base64url, no padding" (RFC 4648 section 5 without the
  pad characters): the same groups, and nothing is emitted for the missing bytes.
\<close>

fun base64url_nopad :: "byte list \<Rightarrow> string" where
  "base64url_nopad (a # b # c # rest) =
     [b64_char (unat a div 4),
      b64_char ((unat a mod 4) * 16 + unat b div 16),
      b64_char ((unat b mod 16) * 4 + unat c div 64),
      b64_char (unat c mod 64)] @ base64url_nopad rest"
| "base64url_nopad [a, b] =
     [b64_char (unat a div 4),
      b64_char ((unat a mod 4) * 16 + unat b div 16),
      b64_char ((unat b mod 16) * 4)]"
| "base64url_nopad [a] =
     [b64_char (unat a div 4),
      b64_char ((unat a mod 4) * 16)]"
| "base64url_nopad [] = []"

section \<open>PKCE generator\<close>

text \<open>
  \<open>_generate_code_verifier(length=64)\<close>. The random source \<open>secrets.token_bytes\<close> is a
  parameter: \<open>token_bytes n\<close> is what the call \<open>secrets.token_bytes(n)\<close> returned. The
  \<open>length\<close> argument is accepted and not read, as in the source.
\<close>

definition generate_code_verifier :: "int \<Rightarrow> (nat \<Rightarrow> byte list) \<Rightarrow> string" where
  "generate_code_verifier len token_bytes =
     (let verifier = rstrip_chars ''='' (urlsafe_b64encode (token_bytes 48));
          verifier = (if length verifier < 43
                      then verifier @ replicate (43 - length verifier) CHR ''A''
                      else verifier)
      in take 128 verifier)"

text \<open>The unreserved characters of RFC 7636: ASCII letters, digits, and \<open>- . _ ~\<close>.\<close>

definition unreserved_char :: "char \<Rightarrow> bool" where
  "unreserved_char c =
     (let n = (of_char c :: nat) in
        (65 \<le> n \<and> n \<le> 90) \<or> (97 \<le> n \<and> n \<le> 122) \<or> (48 \<le> n \<and> n \<le> 57)
        \<or> c = CHR ''-'' \<or> c = CHR ''.'' \<or> c = CHR ''_'' \<or> c = CHR ''~'')"

definition zero_bytes :: "nat \<Rightarrow> byte list" where
  "zero_bytes n = replicate n 0"

section \<open>Exceptions and the library functions that are parameters\<close>

text \<open>
  Every exception the modelled code can raise is a value. \<open>SkipStep\<close> is the repository's
  own class; the others are the standard classes that the repository or the library calls
  raise. \<open>OtherError\<close> stands for an exception raised by the environment (network, JSON
  decoding, end of input); its argument is \<open>str(exc)\<close>.
\<close>

datatype exn =
    SkipStep string
  | RuntimeError string
  | ValueError string
  | TypeError string
  | AttributeError string
  | UnicodeEncodeError string
  | OtherError string

fun exn_text :: "exn \<Rightarrow> string" where
  "exn_text (SkipStep m) = m"
| "exn_text (RuntimeError m) = m"
| "exn_text (ValueError m) = m"
| "exn_text (TypeError m) = m"
| "exn_text (AttributeError m) = m"
| "exn_text (UnicodeEncodeError m) = m"
| "exn_text (OtherError m) = m"

fun is_skip :: "exn \<Rightarrow> bool" where
  "is_skip (SkipStep m) = True"
| "is_skip e = False"

text \<open>
  Two pieces of the Python library are taken as parameters, since their code is not part of
  the repository and no claim depends on what they compute:
  \<^item> \<open>check_bracketed_host\<close>: the validation \<open>urlsplit\<close> applies to the text between
    \<open>[\<close> and \<open>]\<close> of a network location (\<open>None\<close> when it is accepted, otherwise the
    text of the \<open>ValueError\<close>);
  \<^item> \<open>decode_utf8\<close>: \<open>bytes.decode("utf-8", "replace")\<close>, which \<open>unquote\<close> applies to
    percent-decoded bytes.
\<close>

record pylib =
  check_bracketed_host :: "string \<Rightarrow> string option"
  decode_utf8 :: "byte list \<Rightarrow> string"

text \<open>
  An instance for concrete evaluation: every bracketed host is accepted and bytes are
  decoded one to one. The inputs evaluated below have no bracket and no percent escape,
  so neither field is consulted there.
\<close>

definition plain_lib :: pylib where
  "plain_lib = \<lparr>check_bracketed_host = (\<lambda>h. None),
                decode_utf8 = map (\<lambda>b. char_of (unat b))\<rparr>"

section \<open>Python string operations\<close>

text \<open>\<open>str.isspace\<close> on the code points below 256.\<close>

definition py_isspace :: "char \<Rightarrow> bool" where
  "py_isspace c =
     (let n = (of_char c :: nat) in
        (9 \<le> n \<and> n \<le> 13) \<or> (28 \<le> n \<and> n \<le> 32) \<or> n = 133 \<or> n = 160)"

text \<open>\<open>s.strip()\<close>.\<close>

definition strip_ws :: "string \<Rightarrow> string" where
  "strip_ws s = rev (dropWhile py_isspace (rev (dropWhile py_isspace s)))"

text \<open>\<open>bool(x)\<close> for an optional string: \<open>None\<close> and the empty string are false.\<close>

fun truthy :: "string option \<Rightarrow> bool" where
  "truthy None = False"
| "truthy (Some s) = (s \<noteq> [])"

text \<open>\<open>s.partition(c)\<close> without the separator; also \<open>s.split(c, 1)\<close> when \<open>c\<close> occurs.\<close>

definition split_once :: "char \<Rightarrow> string \<Rightarrow> string \<times> string" where
  "split_once c s = (takeWhile (\<lambda>x. x \<noteq> c) s, drop 1 (dropWhile (\<lambda>x. x \<noteq> c) s))"

text \<open>\<open>s.split(c)\<close>: the pieces between the occurrences of \<open>c\<close>.\<close>

fun split_char :: "char \<Rightarrow> string \<Rightarrow> string list" where
  "split_char c [] = [[]]"
| "split_char c (x # xs) =
     (if x = c then [] # split_char c xs
      else (case split_char c xs of
              w # ws \<Rightarrow> (x # w) # ws
            | [] \<Rightarrow> [[x]]))"

definition is_ascii :: "char \<Rightarrow> bool" where
  "is_ascii c = ((of_char c :: nat) < 128)"

definition is_ascii_alpha :: "char \<Rightarrow> bool" where
  "is_ascii_alpha c =
     (let n = (of_char c :: nat) in (65 \<le> n \<and> n \<le> 90) \<or> (97 \<le> n \<and> n \<le> 122))"

definition is_digit :: "char \<Rightarrow> bool" where
  "is_digit c = (let n = (of_char c :: nat) in 48 \<le> n \<and> n \<le> 57)"

definition ascii_lower :: "char \<Rightarrow> char" where
  "ascii_lower c =
     (let n = (of_char c :: nat) in if 65 \<le> n \<and> n \<le> 90 then char_of (n + 32) else c)"

section \<open>\<open>urllib.parse\<close>: \<open>urlsplit\<close>, \<open>urlparse\<close>, \<open>parse_qs\<close>\<close>

record url_parts =
  scheme :: string
  netloc :: string
  path :: string
  params :: string
  query :: string
  fragment :: string

definition scheme_char :: "char \<Rightarrow> bool" where
  "scheme_char c = (is_ascii_alpha c \<or> is_digit c \<or> c \<in> set ''+-.'')"

text \<open>
  The scheme is split off when the text before the first \<open>:\<close> is not empty, starts with
  an ASCII letter and has scheme characters only.
\<close>

definition split_scheme :: "string \<Rightarrow> string \<times> string" where
  "split_scheme url =
     (let pre = takeWhile (\<lambda>c. c \<noteq> CHR '':'') url in
        if CHR '':'' \<in> set url \<and> pre \<noteq> [] \<and> is_ascii_alpha (hd pre) \<and> list_all scheme_char pre
        then (map ascii_lower pre, drop (Suc (length pre)) url)
        else ([], url))"

text \<open>\<open>_splitnetloc(url, 2)\<close>: the text after \<open>//\<close> up to the first of \<open>/ ? #\<close>.\<close>

definition splitnetloc :: "string \<Rightarrow> string \<times> string" where
  "splitnetloc url =
     (let body = drop 2 url;
          host = takeWhile (\<lambda>c. c \<notin> set ''/?#'') body
      in (host, drop (length host) body))"

definition bracketed_host :: "string \<Rightarrow> string" where
  "bracketed_host nl =
     takeWhile (\<lambda>c. c \<noteq> CHR '']'') (drop 1 (dropWhile (\<lambda>c. c \<noteq> CHR ''['') nl))"

text \<open>
  \<open>urlsplit\<close> as in Python 3.11: leading C0 controls and spaces are stripped, tab, CR and
  LF are removed, then scheme, network location, fragment and query are split off in this
  order. \<open>_checknetloc\<close> only rejects characters whose NFKC form contains one of
  \<open>/ ? # @ :\<close>; no code point below 256 has such a form, so it never raises on the
  strings of this model.
\<close>

definition urlsplit :: "pylib \<Rightarrow> string \<Rightarrow> exn + url_parts" where
  "urlsplit L url0 =
     (let url1 = dropWhile (\<lambda>c. (of_char c :: nat) \<le> 32) url0;
          url2 = filter (\<lambda>c. c \<notin> set [CHR 0x09, CHR 0x0D, CHR 0x0A]) url1;
          sch = fst (split_scheme url2);
          url3 = snd (split_scheme url2);
          has_netloc = (take 2 url3 = ''//'');
          nl = (if has_netloc then fst (splitnetloc url3) else []);
          url4 = (if has_netloc then snd (splitnetloc url3) else url3);
          lb = (CHR ''['' \<in> set nl);
          rb = (CHR '']'' \<in> set nl)
      in if has_netloc \<and> lb \<noteq> rb then Inl (ValueError ''Invalid IPv6 URL'')
         else (case (if has_netloc \<and> lb \<and> rb
                     then check_bracketed_host L (bracketed_host nl) else None) of
                 Some msg \<Rightarrow> Inl (ValueError msg)
               | None \<Rightarrow>
                   (let url5 = (if CHR ''#'' \<in> set url4 then fst (split_once CHR ''#'' url4) else url4);
                        frag = (if CHR ''#'' \<in> set url4 then snd (split_once CHR ''#'' url4) else []);
                        pth = (if CHR ''?'' \<in> set url5 then fst (split_once CHR ''?'' url5) else url5);
                        qry = (if CHR ''?'' \<in> set url5 then snd (split_once CHR ''?'' url5) else [])
                    in Inr \<lparr>scheme = sch, netloc = nl, path = pth, params = [],
                            query = qry, fragment = frag\<rparr>)))"

definition uses_params :: "string list" where
  "uses_params = ['''', ''ftp'', ''hdl'', ''prospero'', ''http'', ''imap'', ''https'', ''shttp'',
                  ''rtsp'', ''rtsps'', ''rtspu'', ''sip'', ''sips'', ''mms'', ''sftp'', ''tel'']"

text \<open>\<open>_splitparams\<close>: parameters are split from the last path segment only.\<close>

definition splitparams :: "string \<Rightarrow> string \<times> string" where
  "splitparams url =
     (if CHR ''/'' \<in> set url then
        (let last_seg = rev (takeWhile (\<lambda>c. c \<noteq> CHR ''/'') (rev url));
             pre = take (length url - length last_seg) url
         in if CHR '';'' \<in> set last_seg
            then (pre @ fst (split_once CHR '';'' last_seg), snd (split_once CHR '';'' last_seg))
            else (url, []))
      else split_once CHR '';'' url)"

definition urlparse :: "pylib \<Rightarrow> string \<Rightarrow> exn + url_parts" where
  "urlparse L url =
     (case urlsplit L url of
        Inl e \<Rightarrow> Inl e
      | Inr r \<Rightarrow>
          if scheme r \<in> set uses_params \<and> CHR '';'' \<in> set (path r)
          then Inr (r\<lparr>path := fst (splitparams (path r)), params := snd (splitparams (path r))\<rparr>)
          else Inr r)"

definition hexval :: "char \<Rightarrow> nat option" where
  "hexval c =
     (let n = (of_char c :: nat) in
        if 48 \<le> n \<and> n \<le> 57 then Some (n - 48)
        else if 65 \<le> n \<and> n \<le> 70 then Some (n - 55)
        else if 97 \<le> n \<and> n \<le> 102 then Some (n - 87)
        else None)"

text \<open>
  \<open>unquote_to_bytes\<close> on an ASCII string: \<open>%XY\<close> with two hexadecimal digits is one byte,
  any other \<open>%\<close> stays.
\<close>

fun unquote_to_bytes :: "string \<Rightarrow> byte list" where
  "unquote_to_bytes (c # a # b # rest) =
     (if c = CHR ''%'' then
        (case (hexval a, hexval b) of
           (Some x, Some y) \<Rightarrow> of_nat (16 * x + y) # unquote_to_bytes rest
         | _ \<Rightarrow> of_nat (of_char c) # unquote_to_bytes (a # b # rest))
      else of_nat (of_char c) # unquote_to_bytes (a # b # rest))"
| "unquote_to_bytes (c # rest) = of_nat (of_char c) # unquote_to_bytes rest"
| "unquote_to_bytes [] = []"

text \<open>The maximal runs of ASCII and of non-ASCII characters of a string, in order.\<close>

fun ascii_runs :: "string \<Rightarrow> string list" where
  "ascii_runs [] = []"
| "ascii_runs (c # cs) =
     (case ascii_runs cs of
        r # rs \<Rightarrow> (if r \<noteq> [] \<and> is_ascii (hd r) = is_ascii c then (c # r) # rs else [c] # r # rs)
      | [] \<Rightarrow> [[c]])"

text \<open>
  \<open>unquote\<close>: a string without \<open>%\<close> is returned as it is; otherwise each ASCII run is
  percent-decoded and decoded as UTF-8, and the other characters are kept.
\<close>

definition unquote :: "pylib \<Rightarrow> string \<Rightarrow> string" where
  "unquote L s =
     (if CHR ''%'' \<notin> set s then s
      else concat (map (\<lambda>r. if r \<noteq> [] \<and> is_ascii (hd r)
                              then decode_utf8 L (unquote_to_bytes r) else r)
                       (ascii_runs s)))"

definition unquote_plus :: "pylib \<Rightarrow> string \<Rightarrow> string" where
  "unquote_plus L s = unquote L (map (\<lambda>c. if c = CHR ''+'' then CHR '' '' else c) s)"

text \<open>
  \<open>parse_qsl\<close> with its defaults (\<open>keep_blank_values=False\<close>, \<open>strict_parsing=False\<close>,
  separator \<open>&\<close>): empty fields and fields with an empty value are dropped.
\<close>

definition parse_field :: "pylib \<Rightarrow> string \<Rightarrow> (string \<times> string) list" where
  "parse_field L name_value =
     (if name_value = [] then []
      else if snd (split_once CHR ''='' name_value) \<noteq> []
           then [(unquote_plus L (fst (split_once CHR ''='' name_value)),
                  unquote_plus L (snd (split_once CHR ''='' name_value)))]
           else [])"

definition parse_qsl :: "pylib \<Rightarrow> string \<Rightarrow> (string \<times> string) list" where
  "parse_qsl L qs = (if qs = [] then [] else concat (map (parse_field L) (split_char CHR ''&'' qs)))"

text \<open>\<open>parse_qs\<close>: a dictionary from each name to the list of its values, in order.\<close>

fun qs_add :: "(string \<times> string list) list \<Rightarrow> string \<times> string \<Rightarrow> (string \<times> string list) list" where
  "qs_add [] (n, v) = [(n, [v])]"
| "qs_add ((k, vs) # d) (n, v) = (if k = n then (k, vs @ [v]) # d else (k, vs) # qs_add d (n, v))"

definition parse_qs :: "pylib \<Rightarrow> string \<Rightarrow> (string \<times> string list) list" where
  "parse_qs L qs = foldl qs_add [] (parse_qsl L qs)"

section \<open>\<open>_extract_code\<close>, \<open>_tenant_from_discovery_url\<close>, \<open>_load_env_defaults\<close>\<close>

definition extract_code :: "pylib \<Rightarrow> string \<Rightarrow> exn + string" where
  "extract_code L v =
     (let trimmed = strip_ws v in
        if trimmed = [] then Inl (SkipStep ''Authorization code not provided.'')
        else (case urlparse L trimmed of
                Inl e \<Rightarrow> Inl e
              | Inr parsed \<Rightarrow>
                  if query parsed \<noteq> [] then
                    (case map_of (parse_qs L (query parsed)) ''code'' of
                       Some (code # further) \<Rightarrow> Inr code
                     | _ \<Rightarrow> Inl (RuntimeError
                         ''Redirect URL does not contain a `code` parameter. Paste the full redirect URL or just the code.''))
                  else Inr trimmed))"

definition tenant_from_discovery_url :: "pylib \<Rightarrow> string option \<Rightarrow> exn + string option" where
  "tenant_from_discovery_url L url =
     (if \<not> truthy url then Inr None
      else (case urlparse L (the url) of
              Inl e \<Rightarrow> Inl e
            | Inr parsed \<Rightarrow>
                (case filter (\<lambda>part. part \<noteq> []) (split_char CHR ''/'' (path parsed)) of
                   first # others \<Rightarrow> Inr (Some first)
                 | [] \<Rightarrow> Inr None)))"

definition DEFAULT_TENANT_ID :: string where
  "DEFAULT_TENANT_ID = ''14b77578-9773-42d5-8507-251ca2dc2b06''"

record EntraEnvDefaults =
  env_client_id :: "string option"
  env_client_secret :: "string option"
  env_redirect_uri :: "string option"
  env_discovery_url :: "string option"
  env_tenant_id :: string

text \<open>
  \<open>_load_env_defaults\<close>. The file is given as what \<open>dotenv_values\<close> read from it
  (\<open>None\<close> when the path does not exist); a key written without a value maps to \<open>None\<close>.
\<close>

definition values_get :: "(string \<rightharpoonup> string option) \<Rightarrow> string \<Rightarrow> string option" where
  "values_get vals k = (case vals k of None \<Rightarrow> None | Some v \<Rightarrow> v)"

definition load_env_defaults ::
    "pylib \<Rightarrow> (string \<rightharpoonup> string option) option \<Rightarrow> exn + EntraEnvDefaults" where
  "load_env_defaults L file =
     (let empty = \<lparr>env_client_id = None, env_client_secret = None, env_redirect_uri = None,
                   env_discovery_url = None, env_tenant_id = DEFAULT_TENANT_ID\<rparr>
      in case file of
           None \<Rightarrow> Inr empty
         | Some vals \<Rightarrow>
             (let defaults = \<lparr>env_client_id = values_get vals ''client_id'',
                              env_client_secret = values_get vals ''client_secret'',
                              env_redirect_uri = values_get vals ''redirect_uri'',
                              env_discovery_url = values_get vals ''discovery_url'',
                              env_tenant_id = DEFAULT_TENANT_ID\<rparr>
              in if truthy (values_get vals ''tenant_id'')
                 then Inr (defaults\<lparr>env_tenant_id := the (values_get vals ''tenant_id'')\<rparr>)
                 else (case tenant_from_discovery_url L (env_discovery_url defaults) of
                         Inl e \<Rightarrow> Inl e
                       | Inr tenant \<Rightarrow>
                           if truthy tenant then Inr (defaults\<lparr>env_tenant_id := the tenant\<rparr>)
                           else Inr defaults)))"

text \<open>The specification's wording for the tenant: the last-but-one segment of the path.\<close>

definition last_but_one :: "'a list \<Rightarrow> 'a option" where
  "last_but_one xs = (if length xs < 2 then None else Some (xs ! (length xs - 2)))"

definition discovery_example :: string where
  "discovery_example =
     ''https://login.microsoftonline.com/custom-tenant/v2.0/.well-known/openid-configuration''"

section \<open>Facts about the base64 model\<close>

lemma length_b64_alphabet: "length b64_alphabet = 64"
  by (simp add: b64_alphabet_def)

lemma b64_char_in_alphabet: "i < 64 \<Longrightarrow> b64_char i \<in> set b64_alphabet"
  unfolding b64_char_def by (rule nth_mem) (simp add: length_b64_alphabet)

lemma pad_not_in_alphabet: "CHR ''='' \<notin> set b64_alphabet"
  by (simp add: b64_alphabet_def)

lemma alphabet_unreserved: "c \<in> set b64_alphabet \<Longrightarrow> unreserved_char c"
  by (auto simp: b64_alphabet_def unreserved_char_def)

lemma unat_byte_bounds:
  fixes a b c :: byte
  shows "unat a div 4 < 64"
    and "(unat a mod 4) * 16 + unat b div 16 < 64"
    and "(unat b mod 16) * 4 + unat c div 64 < 64"
    and "unat c mod 64 < 64"
    and "(unat b mod 16) * 4 < 64"
    and "(unat a mod 4) * 16 < 64"
proof -
  have a: "unat a < 256" and b: "unat b < 256" and c: "unat c < 256"
    using unsigned_less [of a, where 'a = nat] unsigned_less [of b, where 'a = nat]
      unsigned_less [of c, where 'a = nat] by simp_all
  have a4: "unat a mod 4 < 4" and b16: "unat b mod 16 < 16" by simp_all
  have bd: "unat b div 16 < 16" using b by (simp add: less_mult_imp_div_less)
  have cd: "unat c div 64 < 4" using c by (simp add: less_mult_imp_div_less)
  show "unat a div 4 < 64" using a by (simp add: less_mult_imp_div_less)
  show "(unat a mod 4) * 16 + unat b div 16 < 64" using a4 bd by linarith
  show "(unat b mod 16) * 4 + unat c div 64 < 64" using b16 cd by linarith
  show "unat c mod 64 < 64" by simp
  show "(unat b mod 16) * 4 < 64" using b16 by linarith
  show "(unat a mod 4) * 16 < 64" using a4 by linarith
qed

lemma nopad_in_alphabet: "set (base64url_nopad bs) \<subseteq> set b64_alphabet"
  by (induction bs rule: base64url_nopad.induct)
     (simp_all add: b64_char_in_alphabet unat_byte_bounds)

lemma encode_is_nopad_plus_padding:
  "urlsafe_b64encode bs = base64url_nopad bs @ replicate ((3 - length bs mod 3) mod 3) CHR ''=''"
proof (induction bs rule: base64url_nopad.induct)
  case (1 a b c rest)
  have "length (a # b # c # rest) = length rest + 3"
    by simp
  then have "length (a # b # c # rest) mod 3 = length rest mod 3"
    by (simp only: mod_add_self2)
  then show ?case
    using 1 by (simp only: urlsafe_b64encode.simps base64url_nopad.simps append_assoc)
next
  case (2 a b)
  show ?case by simp
next
  case (3 a)
  have "replicate 2 CHR ''='' = ''==''"
    by (simp add: numeral_2_eq_2)
  then show ?case by simp
next
  case 4
  show ?case by simp
qed

lemma rstrip_chars_padding:
  assumes "set xs \<inter> set chars = {}" and "set ys \<subseteq> set chars"
  shows "rstrip_chars chars (xs @ ys) = xs"
proof -
  have "dropWhile (\<lambda>c. c \<in> set chars) (rev ys @ rev xs) = dropWhile (\<lambda>c. c \<in> set chars) (rev xs)"
    using assms(2) by (intro dropWhile_append2) auto
  also have "\<dots> = rev xs"
    using assms(1) by (cases "rev xs") auto
  finally show ?thesis by (simp add: rstrip_chars_def)
qed

lemma rstrip_encode: "rstrip_chars ''='' (urlsafe_b64encode bs) = base64url_nopad bs"
proof -
  have "set (base64url_nopad bs) \<inter> set ''='' = {}"
    using nopad_in_alphabet [of bs] pad_not_in_alphabet by auto
  then show ?thesis
    unfolding encode_is_nopad_plus_padding by (rule rstrip_chars_padding) auto
qed

lemma length_nopad_multiple_of_3:
  "length bs = 3 * k \<Longrightarrow> length (base64url_nopad bs) = 4 * k"
proof (induction bs arbitrary: k rule: base64url_nopad.induct)
  case (1 a b c rest)
  then obtain j where "k = Suc j" by (cases k) auto
  with 1 show ?case by simp
qed auto

lemma verifier_unfold:
  "generate_code_verifier len tb =
     take 128 (if length (base64url_nopad (tb 48)) < 43
               then base64url_nopad (tb 48) @
                    replicate (43 - length (base64url_nopad (tb 48))) CHR ''A''
               else base64url_nopad (tb 48))"
  by (simp add: generate_code_verifier_def rstrip_encode Let_def)

lemma nopad_unreserved: "c \<in> set (base64url_nopad bs) \<Longrightarrow> unreserved_char c"
  using nopad_in_alphabet [of bs] alphabet_unreserved by blast

lemma pad_letter_unreserved: "unreserved_char CHR ''A''"
  by (simp add: unreserved_char_def)

section \<open>Claims about the PKCE verifier\<close>

text \<open>
  C8: every string returned by \<open>_generate_code_verifier\<close> has between 43 and 128 characters,
  all of them from the RFC 7636 unreserved set (ASCII letters, digits, \<open>-\<close>, \<open>.\<close>, \<open>_\<close>,
  \<open>~\<close>). This holds whatever bytes the random source returns and whatever \<open>length\<close> is.
\<close>

theorem verifier_length_and_charset:
  "43 \<le> length (generate_code_verifier len tb)
   \<and> length (generate_code_verifier len tb) \<le> 128
   \<and> list_all unreserved_char (generate_code_verifier len tb)"
proof -
  let ?v = "base64url_nopad (tb 48)"
  let ?w = "if length ?v < 43 then ?v @ replicate (43 - length ?v) CHR ''A'' else ?v"
  have len: "43 \<le> length ?w" by simp
  have chars: "\<forall>c \<in> set ?w. unreserved_char c"
    using nopad_unreserved pad_letter_unreserved by auto
  have "\<forall>c \<in> set (take 128 ?w). unreserved_char c"
    using chars by (meson in_set_takeD)
  then have "list_all unreserved_char (take 128 ?w)"
    by (simp add: list_all_iff)
  moreover have "43 \<le> length (take 128 ?w)" using len by simp
  moreover have "length (take 128 ?w) \<le> 128" by simp
  ultimately show ?thesis
    unfolding verifier_unfold by blast
qed

theorem verifier_length_and_charset_witness:
  "43 \<le> length (generate_code_verifier 64 zero_bytes)
   \<and> length (generate_code_verifier 64 zero_bytes) \<le> 128
   \<and> list_all unreserved_char (generate_code_verifier 64 zero_bytes)"
  by (rule verifier_length_and_charset)

text \<open>
  C10: \<open>_generate_code_verifier\<close> returns exactly 64 characters for every value of its
  \<open>length\<close> parameter: the argument is never read, and the 48 bytes that
  \<open>secrets.token_bytes(48)\<close> returns encode to 64 characters without padding.
\<close>

theorem verifier_ignores_length:
  "length (tb 48) = 48 \<Longrightarrow>
     length (generate_code_verifier len tb) = 64
     \<and> generate_code_verifier len tb = generate_code_verifier len' tb"
proof -
  assume "length (tb 48) = 48"
  then have "length (tb 48) = 3 * 16" by simp
  then have "length (base64url_nopad (tb 48)) = 4 * 16"
    by (rule length_nopad_multiple_of_3)
  then show ?thesis
    by (simp add: verifier_unfold)
qed

theorem verifier_ignores_length_witness:
  "length (zero_bytes 48) = 48
   \<and> length (generate_code_verifier 43 zero_bytes) = 64
   \<and> generate_code_verifier 43 zero_bytes = generate_code_verifier 128 zero_bytes"
proof -
  have h: "length (zero_bytes 48) = 48" by (simp add: zero_bytes_def)
  show ?thesis
    using h verifier_ignores_length [of zero_bytes 43 128] by blast
qed

end
